theory Spec2Isabelle
  imports Main
begin

section \<open>Credential resolution of \<open>computer_use_demo/token_manager.py\<close>\<close>

text \<open>
  The module resolves an Anthropic API credential from the process environment and from
  three services of the macOS keychain. Three things lie outside the module and are
  parameters of every function below:
  \<^item> \<open>environ\<close>: the process environment \<open>os.environ\<close>, a map from names to values;
  \<^item> \<open>run\<close>: \<open>subprocess.run\<close> on the \<open>security\<close> command line, which either raises
    or completes with a return code and the captured standard output;
  \<^item> \<open>loads\<close>: \<open>json.loads\<close>, which returns a Python value or raises. It raises
    \<open>JSONDecodeError\<close> on most text that is not JSON, but also other exceptions:
    \<open>RecursionError\<close> on a deeply nested document, \<open>ValueError\<close> on an integer
    literal with too many digits. The module catches the first only.
  Every call of \<open>subprocess.run\<close> is appended to a trace of command lines, which is
  threaded through the functions, so that a claim about which stores were queried is a
  claim about the trace. Diagnostic printing (\<open>_log\<close>) changes no result and is left
  out, but the arguments of \<open>_log\<close> are evaluated as Python evaluates them, before the
  call and whatever \<open>verbose\<close> is.
\<close>

subsection \<open>Python values\<close>

text \<open>
  The values \<open>json.loads\<close> can return, with \<open>PNone\<close> also standing for the \<open>None\<close> of
  an unset \<open>Optional\<close> field. A \<open>dict\<close> is an association list read through \<open>map_of\<close>.
  A \<open>str\<close> is a \<open>string\<close>, each \<open>char\<close> read as a code point below 256.
\<close>

datatype pyfloat = Finite int int | Infinite bool | NaN

datatype pyval =
    PNone
  | PBool bool
  | PInt int
  | PFloat pyfloat
  | PStr string
  | PList "pyval list"
  | PDict "(string \<times> pyval) list"

datatype py_error =
  AttributeError | TypeError | KeyError | JSONDecodeError | RecursionError | ValueError

text \<open>\<open>json.loads\<close> on a \<open>str\<close>: the value, or the exception raised.\<close>

type_synonym parser = "string \<Rightarrow> py_error + pyval"

text \<open>Truth value testing, as \<open>if x:\<close> does it.\<close>

fun truthy :: "pyval \<Rightarrow> bool" where
  "truthy PNone = False"
| "truthy (PBool b) = b"
| "truthy (PInt i) = (i \<noteq> 0)"
| "truthy (PFloat (Finite m e)) = (m \<noteq> 0)"
| "truthy (PFloat (Infinite s)) = True"
| "truthy (PFloat NaN) = True"
| "truthy (PStr s) = (s \<noteq> [])"
| "truthy (PList xs) = (xs \<noteq> [])"
| "truthy (PDict kvs) = (kvs \<noteq> [])"

text \<open>\<open>s.startswith(p)\<close> and the substring test \<open>k in s\<close> of \<open>str\<close>.\<close>

definition startswith :: "string \<Rightarrow> string \<Rightarrow> bool" where
  "startswith s p = (take (length p) s = p)"

fun str_contains :: "string \<Rightarrow> string \<Rightarrow> bool" where
  "str_contains [] k = (k = [])"
| "str_contains (c # cs) k = (startswith (c # cs) k \<or> str_contains cs k)"

text \<open>
  \<open>s.strip()\<close>: the white space of \<open>str.isspace\<close> among the code points below 256 is
  removed from both ends.
\<close>

definition is_space :: "char \<Rightarrow> bool" where
  "is_space c = ((of_char c :: nat) \<in> {9, 10, 11, 12, 13, 28, 29, 30, 31, 32, 133, 160})"

definition strip :: "string \<Rightarrow> string" where
  "strip s = rev (dropWhile is_space (rev (dropWhile is_space s)))"

text \<open>
  The operators the module applies to a parsed document, with a \<open>str\<close> key:
  \<open>k in v\<close>, \<open>v[k]\<close>, \<open>v.get(k, default)\<close>, \<open>isinstance(v, dict)\<close> and \<open>len(v)\<close>.
  Each raises on the values Python raises on.
\<close>

fun py_contains :: "pyval \<Rightarrow> string \<Rightarrow> py_error + bool" where
  "py_contains (PDict kvs) k = Inr (map_of kvs k \<noteq> None)"
| "py_contains (PList xs) k = Inr (List.member xs (PStr k))"
| "py_contains (PStr s) k = Inr (str_contains s k)"
| "py_contains v k = Inl TypeError"

fun py_getitem :: "pyval \<Rightarrow> string \<Rightarrow> py_error + pyval" where
  "py_getitem (PDict kvs) k = (case map_of kvs k of Some v \<Rightarrow> Inr v | None \<Rightarrow> Inl KeyError)"
| "py_getitem v k = Inl TypeError"

fun py_get :: "pyval \<Rightarrow> string \<Rightarrow> pyval \<Rightarrow> py_error + pyval" where
  "py_get (PDict kvs) k d = Inr (case map_of kvs k of Some v \<Rightarrow> v | None \<Rightarrow> d)"
| "py_get v k d = Inl AttributeError"

fun is_dict :: "pyval \<Rightarrow> bool" where
  "is_dict (PDict kvs) = True"
| "is_dict v = False"

fun py_len :: "pyval \<Rightarrow> py_error + nat" where
  "py_len (PStr s) = Inr (length s)"
| "py_len (PList xs) = Inr (length xs)"
| "py_len (PDict kvs) = Inr (length (remdups (map fst kvs)))"
| "py_len v = Inl TypeError"

subsection \<open>The data model\<close>

text \<open>
  \<open>ClaudeCredentials\<close>: three \<open>Optional\<close> fields, each \<open>None\<close> at construction. Python
  does not enforce the annotations, and \<open>api_key\<close> and \<open>mcp_oauth_tokens\<close> receive
  whatever the parsed document holds, so every field is a \<open>pyval\<close>.
\<close>

record ClaudeCredentials =
  api_key :: pyval
  mcp_oauth_tokens :: pyval
  session_token :: pyval

definition ClaudeCredentials_init :: ClaudeCredentials where
  "ClaudeCredentials_init = \<lparr>api_key = PNone, mcp_oauth_tokens = PNone, session_token = PNone\<rparr>"

text \<open>\<open>TokenManager.KEYCHAIN_SERVICES\<close>, read at its three keys only.\<close>

definition KEYCHAIN_SERVICES :: "(string \<times> string) list" where
  "KEYCHAIN_SERVICES =
     [(''claude_code'', ''Claude Code''),
      (''claude_code_credentials'', ''Claude Code-credentials''),
      (''claude_safe_storage'', ''Claude Safe Storage'')]"

definition service :: "string \<Rightarrow> string" where
  "service k = (case map_of KEYCHAIN_SERVICES k of Some v \<Rightarrow> v | None \<Rightarrow> [])"

subsection \<open>The keychain accessor\<close>

text \<open>
  \<open>subprocess.run(cmd, capture_output=True, text=True, check=False)\<close> raises, or
  completes with a return code and the text of standard output.
\<close>

datatype proc = Raised | Completed int string

type_synonym runner = "string list \<Rightarrow> proc"
type_synonym trace = "string list list"

definition keychain_cmd :: "string \<Rightarrow> string option \<Rightarrow> string list" where
  "keychain_cmd svc account =
     [''security'', ''find-generic-password'', ''-s'', svc, ''-w''] @
     (case account of
        Some a \<Rightarrow> if a \<noteq> [] then [''-a'', a] else []
      | None \<Rightarrow> [])"

text \<open>
  \<open>_get_keychain_password\<close>: every exception is caught and mapped to \<open>None\<close>, as is a
  non-zero return code; otherwise the stripped output is returned.
\<close>

definition get_keychain_password ::
  "runner \<Rightarrow> string \<Rightarrow> string option \<Rightarrow> trace \<Rightarrow> string option \<times> trace" where
  "get_keychain_password run svc account t =
     (let cmd = keychain_cmd svc account in
      case run cmd of
        Raised \<Rightarrow> (None, t @ [cmd])
      | Completed returncode stdout \<Rightarrow>
          if returncode = 0 then (Some (strip stdout), t @ [cmd])
          else (None, t @ [cmd]))"

subsection \<open>Structured extraction\<close>

text \<open>
  \<open>_extract_api_key_from_mcp_credentials\<close>. The body of the \<open>try\<close> block is the inner
  \<open>case\<close>; the outer one is \<open>except json.JSONDecodeError\<close>, which lets every other
  exception pass. The argument of the \<open>_log\<close> call in the \<open>mcpOAuth\<close> branch takes
  \<open>len\<close> of the field.
\<close>

definition extract_api_key_from_mcp_credentials :: "parser \<Rightarrow> string \<Rightarrow> py_error + pyval" where
  "extract_api_key_from_mcp_credentials loads credentials_json =
     (case
        (case loads credentials_json of
           Inl e \<Rightarrow> Inl e
         | Inr data \<Rightarrow>
            (case py_contains data ''apiKey'' of
               Inl e \<Rightarrow> Inl e
             | Inr True \<Rightarrow> py_getitem data ''apiKey''
             | Inr False \<Rightarrow>
                (case py_contains data ''anthropic'' of
                   Inl e \<Rightarrow> Inl e
                 | Inr has_anthropic \<Rightarrow>
                    (case (if has_anthropic then py_getitem data ''anthropic'' else Inr PNone) of
                       Inl e \<Rightarrow> Inl e
                     | Inr anthropic \<Rightarrow>
                        if has_anthropic \<and> is_dict anthropic \<and>
                           py_contains anthropic ''apiKey'' = Inr True
                        then py_getitem anthropic ''apiKey''
                        else
                         (case py_contains data ''mcpOAuth'' of
                            Inl e \<Rightarrow> Inl e
                          | Inr False \<Rightarrow> Inr PNone
                          | Inr True \<Rightarrow>
                             (case py_getitem data ''mcpOAuth'' of
                                Inl e \<Rightarrow> Inl e
                              | Inr tokens \<Rightarrow>
                                 (case py_len tokens of
                                    Inl e \<Rightarrow> Inl e
                                  | Inr n \<Rightarrow> Inr PNone))))))) of
        Inl e \<Rightarrow> if e = JSONDecodeError then Inr PNone else Inl e
      | Inr k \<Rightarrow> Inr k)"

subsection \<open>The resolver\<close>

text \<open>
  \<open>get_claude_credentials\<close>. The third query passes no account. The \<open>try\<close> block
  either completes, with the bundle and the fact whether it has returned, or raises,
  with the bundle as it is at that point; \<open>except json.JSONDecodeError\<close> goes on with
  that bundle, and every other exception leaves the function.
\<close>

definition get_claude_credentials ::
  "parser \<Rightarrow> runner \<Rightarrow> string option \<Rightarrow> trace \<Rightarrow> (py_error + ClaudeCredentials) \<times> trace" where
  "get_claude_credentials loads run account t0 =
     (let credentials = ClaudeCredentials_init;
          (claude_code_api_key, t1) =
             get_keychain_password run (service ''claude_code'') account t0
      in
      case (case claude_code_api_key of
              Some k \<Rightarrow> if k \<noteq> [] \<and> startswith k ''sk-ant-'' then Some k else None
            | None \<Rightarrow> None) of
        Some k \<Rightarrow> (Inr (credentials\<lparr>api_key := PStr k\<rparr>), t1)
      | None \<Rightarrow>
         (let (claude_code_creds, t2) =
                 get_keychain_password run (service ''claude_code_credentials'') account t1
          in
          case (case claude_code_creds of
                  None \<Rightarrow> Inr (credentials, False)
                | Some s \<Rightarrow>
                   if s = [] then Inr (credentials, False)
                   else
                    (case
                       (case loads s of
                          Inl e \<Rightarrow> Inl (e, credentials)
                        | Inr creds_data \<Rightarrow>
                           (case py_get creds_data ''mcpOAuth'' (PDict []) of
                              Inl e \<Rightarrow> Inl (e, credentials)
                            | Inr tokens \<Rightarrow>
                               (case extract_api_key_from_mcp_credentials loads s of
                                  Inl e \<Rightarrow> Inl (e, credentials\<lparr>mcp_oauth_tokens := tokens\<rparr>)
                                | Inr k \<Rightarrow>
                                   if truthy k
                                   then Inr (credentials\<lparr>mcp_oauth_tokens := tokens,
                                                          api_key := k\<rparr>, True)
                                   else Inr (credentials\<lparr>mcp_oauth_tokens := tokens\<rparr>,
                                             False)))) of
                       Inl (e, credentials') \<Rightarrow>
                         if e = JSONDecodeError then Inr (credentials', False) else Inl e
                     | Inr r \<Rightarrow> Inr r)) of
            Inl e \<Rightarrow> (Inl e, t2)
          | Inr (credentials', returned) \<Rightarrow>
             if returned then (Inr credentials', t2)
             else
              (let (safe_storage, t3) =
                      get_keychain_password run (service ''claude_safe_storage'') None t2
               in
               case safe_storage of
                 Some tok \<Rightarrow>
                   if tok \<noteq> [] \<and> \<not> truthy (api_key credentials')
                   then (Inr (credentials'\<lparr>session_token := PStr tok\<rparr>), t3)
                   else (Inr credentials', t3)
               | None \<Rightarrow> (Inr credentials', t3))))"

text \<open>\<open>get_anthropic_api_key\<close>: the environment first, then the keychain with no account.\<close>

definition get_anthropic_api_key ::
  "(string \<rightharpoonup> string) \<Rightarrow> parser \<Rightarrow> runner \<Rightarrow> trace \<Rightarrow> (py_error + pyval) \<times> trace" where
  "get_anthropic_api_key environ loads run t =
     (case (case environ ''ANTHROPIC_API_KEY'' of
              Some k \<Rightarrow> if k \<noteq> [] then Some k else None
            | None \<Rightarrow> None) of
        Some k \<Rightarrow> (Inr (PStr k), t)
      | None \<Rightarrow>
         (case get_claude_credentials loads run None t of
            (Inl e, t') \<Rightarrow> (Inl e, t')
          | (Inr credentials, t') \<Rightarrow>
             if truthy (api_key credentials) then (Inr (api_key credentials), t')
             else (Inr PNone, t')))"

text \<open>
  \<open>setup_environment\<close>: the \<open>account\<close> parameter is not used by the body. The returned
  \<open>dict\<close> is a map.
\<close>

definition setup_environment ::
  "(string \<rightharpoonup> string) \<Rightarrow> parser \<Rightarrow> runner \<Rightarrow> string option \<Rightarrow> trace \<Rightarrow>
     (py_error + (string \<rightharpoonup> pyval)) \<times> trace" where
  "setup_environment environ loads run account t =
     (case get_anthropic_api_key environ loads run t of
        (Inl e, t') \<Rightarrow> (Inl e, t')
      | (Inr k, t') \<Rightarrow>
         if truthy k then (Inr [''ANTHROPIC_API_KEY'' \<mapsto> k], t')
         else (Inr Map.empty, t'))"

subsection \<open>Stores and example inputs\<close>

text \<open>
  What a store returns to the resolver: the value of \<open>_get_keychain_password\<close> for a
  service and an account.
\<close>

definition store_value :: "runner \<Rightarrow> string \<Rightarrow> string option \<Rightarrow> string option" where
  "store_value run svc account = fst (get_keychain_password run svc account [])"

text \<open>
  The test on the first store's value: \<open>k and k.startswith("sk-ant-")\<close>. A string
  with that prefix is not empty.
\<close>

definition first_store_matches :: "runner \<Rightarrow> string option \<Rightarrow> bool" where
  "first_store_matches run account =
     (case store_value run ''Claude Code'' account of
        Some k \<Rightarrow> startswith k ''sk-ant-''
      | None \<Rightarrow> False)"

text \<open>
  A keychain for the examples:\<open>security find-generic-password -s svc -w\<close> prints the
  secret of a service it holds, followed by a newline, and exits with 0; it exits with
  44 for a service it does not hold.
\<close>

fun example_keychain :: "(string \<times> string) list \<Rightarrow> runner" where
  "example_keychain entries (a # b # c # svc # rest) =
     (case map_of entries svc of
        Some secret \<Rightarrow> Completed 0 (secret @ [CHR 0x0A])
      | None \<Rightarrow> Completed 44 [])"
| "example_keychain entries cmd = Raised"

text \<open>
  The documents of the examples, and what \<open>json.loads\<close> does on each: the value it
  returns, or the exception it raises. The last document is 996 opening brackets.
\<close>

definition payload_array :: string where
  \<open>payload_array = ''[]''\<close>

definition payload_nested :: string where
  \<open>payload_nested =
     ''{"mcpOAuth": {"svc1": {"accessToken": "tok"}}, "anthropic": {"apiKey": "sk-ant-xyz123"}}''\<close>

definition payload_top_level :: string where
  \<open>payload_top_level = ''{"apiKey": "sk-ant-top", "anthropic": {"apiKey": "sk-ant-nested"}}''\<close>

definition payload_empty_top :: string where
  \<open>payload_empty_top = ''{"apiKey": "", "anthropic": {"apiKey": "sk-ant-nested"}}''\<close>

definition payload_unsized :: string where
  \<open>payload_unsized = ''{"mcpOAuth": 5}''\<close>

definition payload_malformed :: string where
  \<open>payload_malformed = ''{"mcpOAuth":''\<close>

definition payload_deep :: string where
  "payload_deep = replicate 996 (CHR ''['')"

definition example_loads :: parser where
  "example_loads s =
     (case map_of
        [(payload_array, Inr (PList [])),
         (payload_nested,
            Inr (PDict [(''mcpOAuth'', PDict [(''svc1'', PDict [(''accessToken'', PStr ''tok'')])]),
                        (''anthropic'', PDict [(''apiKey'', PStr ''sk-ant-xyz123'')])])),
         (payload_top_level,
            Inr (PDict [(''apiKey'', PStr ''sk-ant-top''),
                        (''anthropic'', PDict [(''apiKey'', PStr ''sk-ant-nested'')])])),
         (payload_empty_top,
            Inr (PDict [(''apiKey'', PStr []),
                        (''anthropic'', PDict [(''apiKey'', PStr ''sk-ant-nested'')])])),
         (payload_unsized, Inr (PDict [(''mcpOAuth'', PInt 5)])),
         (payload_malformed, Inl JSONDecodeError),
         (payload_deep, Inl RecursionError)] s of
        Some r \<Rightarrow> r
      | None \<Rightarrow> Inl JSONDecodeError)"

section \<open>Properties\<close>

subsection \<open>Auxiliary facts\<close>

lemma get_keychain_password_eq:
  "get_keychain_password run svc account t =
     (store_value run svc account, t @ [keychain_cmd svc account])"
  by (simp add: store_value_def get_keychain_password_def Let_def split: proc.splits)

lemma service_simps:
  "service ''claude_code'' = ''Claude Code''"
  "service ''claude_code_credentials'' = ''Claude Code-credentials''"
  "service ''claude_safe_storage'' = ''Claude Safe Storage''"
  by (simp_all add: service_def KEYCHAIN_SERVICES_def)

lemma startswith_nonempty: "startswith k ''sk-ant-'' \<Longrightarrow> k \<noteq> []"
  by (auto simp: startswith_def)

lemmas resolver_defs =
  get_claude_credentials_def get_keychain_password_eq service_simps Let_def
  ClaudeCredentials_init_def

lemmas example_defs =
  store_value_def get_keychain_password_def keychain_cmd_def strip_def is_space_def
  startswith_def

subsection \<open>The first store\<close>

text \<open>
  Claim C4. If the first store (service \<open>Claude Code\<close>) returns a string that starts
  with \<open>sk-ant-\<close>, then \<open>get_claude_credentials\<close> returns a bundle whose primary
  credential is exactly that string, with the other two fields unset, and the only
  store query it has made is the one to the first store: the second and the third
  store are never queried. This holds whatever the environment is, so in particular
  when the override is absent.
\<close>

theorem first_store_match_returns:
  assumes "store_value run ''Claude Code'' account = Some k"
    and "startswith k ''sk-ant-''"
  shows "get_claude_credentials loads run account t =
           (Inr \<lparr>api_key = PStr k, mcp_oauth_tokens = PNone, session_token = PNone\<rparr>,
            t @ [keychain_cmd ''Claude Code'' account])"
  using assms startswith_nonempty[OF assms(2)]
  by (simp add: resolver_defs)

theorem first_store_match_returns_witness:
  "get_claude_credentials example_loads
       (example_keychain [(''Claude Code'', ''sk-ant-abc'')]) None [] =
     (Inr \<lparr>api_key = PStr ''sk-ant-abc'', mcp_oauth_tokens = PNone, session_token = PNone\<rparr>,
      [[''security'', ''find-generic-password'', ''-s'', ''Claude Code'', ''-w'']])"
proof -
  have a: "store_value (example_keychain [(''Claude Code'', ''sk-ant-abc'')])
             ''Claude Code'' None = Some ''sk-ant-abc''"
    by (simp add: example_defs)
  have b: "startswith ''sk-ant-abc'' ''sk-ant-''"
    by (simp add: startswith_def)
  show ?thesis
    using first_store_match_returns[OF a b, of example_loads "[]"]
    by (simp add: keychain_cmd_def)
qed

lemma api_key_set_truthy:
  "get_claude_credentials loads run account t = (Inr c, t') \<Longrightarrow>
     api_key c = PNone \<or> truthy (api_key c)"
  unfolding get_claude_credentials_def
  by (auto simp: get_keychain_password_eq service_simps Let_def ClaudeCredentials_init_def
           split: option.splits if_splits sum.splits prod.splits)

lemma get_anthropic_api_key_truthy:
  "get_anthropic_api_key environ loads run t = (Inr k, t') \<Longrightarrow> k = PNone \<or> truthy k"
  unfolding get_anthropic_api_key_def
  by (auto split: option.splits if_splits sum.splits prod.splits)

subsection \<open>Nothing stored\<close>

text \<open>
  Claim C9. If all three stores return absent (the first two for the account passed
  and for no account, the third for no account, which is how it is always queried),
  then \<open>get_claude_credentials\<close> returns a bundle whose \<open>api_key\<close>,
  \<open>mcp_oauth_tokens\<close> and \<open>session_token\<close> are all \<open>None\<close>, after querying the
  three stores in order; and with the override variable absent
  \<open>get_anthropic_api_key\<close> returns \<open>None\<close>.
\<close>
theorem all_stores_absent:
  assumes "\<forall>a \<in> {account, None}.
             store_value run ''Claude Code'' a = None \<and>
             store_value run ''Claude Code-credentials'' a = None"
    and "store_value run ''Claude Safe Storage'' None = None"
    and "environ ''ANTHROPIC_API_KEY'' = None"
  shows "get_claude_credentials loads run account t =
           (Inr \<lparr>api_key = PNone, mcp_oauth_tokens = PNone, session_token = PNone\<rparr>,
            t @ [keychain_cmd ''Claude Code'' account,
                 keychain_cmd ''Claude Code-credentials'' account,
                 keychain_cmd ''Claude Safe Storage'' None]) \<and>
         get_anthropic_api_key environ loads run t =
           (Inr PNone,
            t @ [keychain_cmd ''Claude Code'' None,
                 keychain_cmd ''Claude Code-credentials'' None,
                 keychain_cmd ''Claude Safe Storage'' None])"
  using assms by (simp add: resolver_defs get_anthropic_api_key_def)

theorem all_stores_absent_witness:
  "get_claude_credentials example_loads (example_keychain []) (Some ''alice'') [] =
     (Inr \<lparr>api_key = PNone, mcp_oauth_tokens = PNone, session_token = PNone\<rparr>,
      [[''security'', ''find-generic-password'', ''-s'', ''Claude Code'', ''-w'', ''-a'', ''alice''],
       [''security'', ''find-generic-password'', ''-s'', ''Claude Code-credentials'', ''-w'', ''-a'', ''alice''],
       [''security'', ''find-generic-password'', ''-s'', ''Claude Safe Storage'', ''-w'']]) \<and>
   get_anthropic_api_key Map.empty example_loads (example_keychain []) [] =
     (Inr PNone,
      [[''security'', ''find-generic-password'', ''-s'', ''Claude Code'', ''-w''],
       [''security'', ''find-generic-password'', ''-s'', ''Claude Code-credentials'', ''-w''],
       [''security'', ''find-generic-password'', ''-s'', ''Claude Safe Storage'', ''-w'']])"
proof -
  have a: "\<forall>a \<in> {Some ''alice'', None}.
             store_value (example_keychain []) ''Claude Code'' a = None \<and>
             store_value (example_keychain []) ''Claude Code-credentials'' a = None"
    by (simp add: example_defs)
  have b: "store_value (example_keychain []) ''Claude Safe Storage'' None = None"
    by (simp add: example_defs)
  have c: "(Map.empty :: string \<rightharpoonup> string) ''ANTHROPIC_API_KEY'' = None"
    by simp
  show ?thesis
    using all_stores_absent[OF a b c, of example_loads "[]"]
    by (simp add: keychain_cmd_def)
qed

subsection \<open>The override\<close>

text \<open>
  Claim C2. If \<open>ANTHROPIC_API_KEY\<close> is present in the environment and non-empty,
  \<open>get_anthropic_api_key\<close> returns exactly that value and the trace is unchanged: no
  store is queried. If the variable is absent or empty, the function is
  \<open>get_claude_credentials\<close> with no account, from the same trace: it returns the
  \<open>api_key\<close> of the bundle, which is \<open>None\<close> when none was resolved, and an
  exception of the delegate leaves it unchanged.
\<close>
theorem override_precedence:
  "(environ ''ANTHROPIC_API_KEY'' = Some k \<and> k \<noteq> [] \<longrightarrow>
      get_anthropic_api_key environ loads run t = (Inr (PStr k), t)) \<and>
   (environ ''ANTHROPIC_API_KEY'' = None \<or> environ ''ANTHROPIC_API_KEY'' = Some [] \<longrightarrow>
      get_anthropic_api_key environ loads run t =
        (case get_claude_credentials loads run None t of
           (Inl e, t') \<Rightarrow> (Inl e, t')
         | (Inr credentials, t') \<Rightarrow> (Inr (api_key credentials), t')))"
proof (intro conjI impI)
  assume "environ ''ANTHROPIC_API_KEY'' = Some k \<and> k \<noteq> []"
  then show "get_anthropic_api_key environ loads run t = (Inr (PStr k), t)"
    by (simp add: get_anthropic_api_key_def)
next
  assume h: "environ ''ANTHROPIC_API_KEY'' = None \<or> environ ''ANTHROPIC_API_KEY'' = Some []"
  obtain r t' where r: "get_claude_credentials loads run None t = (r, t')"
    by (cases "get_claude_credentials loads run None t")
  show "get_anthropic_api_key environ loads run t =
        (case get_claude_credentials loads run None t of
           (Inl e, t') \<Rightarrow> (Inl e, t')
         | (Inr credentials, t') \<Rightarrow> (Inr (api_key credentials), t'))"
  proof (cases r)
    case (Inl e)
    with h r show ?thesis by (auto simp: get_anthropic_api_key_def)
  next
    case (Inr c)
    with r have "api_key c = PNone \<or> truthy (api_key c)"
      using api_key_set_truthy by blast
    with h r Inr show ?thesis by (auto simp: get_anthropic_api_key_def)
  qed
qed

theorem override_precedence_witness:
  "get_anthropic_api_key [''ANTHROPIC_API_KEY'' \<mapsto> ''sk-ant-env'']
       example_loads (example_keychain [(''Claude Code'', ''sk-ant-abc'')]) [] =
     (Inr (PStr ''sk-ant-env''), []) \<and>
   get_anthropic_api_key [''ANTHROPIC_API_KEY'' \<mapsto> []]
       example_loads (example_keychain [(''Claude Code'', ''sk-ant-abc'')]) [] =
     (Inr (PStr ''sk-ant-abc''),
      [[''security'', ''find-generic-password'', ''-s'', ''Claude Code'', ''-w'']])"
proof -
  have a: "[''ANTHROPIC_API_KEY'' \<mapsto> ''sk-ant-env''] ''ANTHROPIC_API_KEY'' = Some ''sk-ant-env'' \<and>
           ''sk-ant-env'' \<noteq> []"
    by simp
  have b: "[''ANTHROPIC_API_KEY'' \<mapsto> []] ''ANTHROPIC_API_KEY'' = None \<or>
           [''ANTHROPIC_API_KEY'' \<mapsto> ([]::string)] ''ANTHROPIC_API_KEY'' = Some []"
    by simp
  have c: "get_claude_credentials example_loads
             (example_keychain [(''Claude Code'', ''sk-ant-abc'')]) None [] =
           (Inr \<lparr>api_key = PStr ''sk-ant-abc'', mcp_oauth_tokens = PNone, session_token = PNone\<rparr>,
            [[''security'', ''find-generic-password'', ''-s'', ''Claude Code'', ''-w'']])"
    by (simp add: get_claude_credentials_def service_simps ClaudeCredentials_init_def example_defs)
  have 1: "get_anthropic_api_key [''ANTHROPIC_API_KEY'' \<mapsto> ''sk-ant-env'']
       example_loads (example_keychain [(''Claude Code'', ''sk-ant-abc'')]) [] =
     (Inr (PStr ''sk-ant-env''), [])"
    using a override_precedence[where environ = "[''ANTHROPIC_API_KEY'' \<mapsto> ''sk-ant-env'']"
        and k = "''sk-ant-env''" and loads = example_loads
        and run = "example_keychain [(''Claude Code'', ''sk-ant-abc'')]" and t = "[]"]
    by blast
  have 2: "get_anthropic_api_key [''ANTHROPIC_API_KEY'' \<mapsto> []]
       example_loads (example_keychain [(''Claude Code'', ''sk-ant-abc'')]) [] =
     (Inr (PStr ''sk-ant-abc''),
      [[''security'', ''find-generic-password'', ''-s'', ''Claude Code'', ''-w'']])"
    using b override_precedence[where environ = "[''ANTHROPIC_API_KEY'' \<mapsto> []]"
        and loads = example_loads
        and run = "example_keychain [(''Claude Code'', ''sk-ant-abc'')]" and t = "[]"]
    by (simp add: c)
  from 1 2 show ?thesis by simp
qed

lemma get_claude_credentials_trace:
  "snd (get_claude_credentials loads run account t) \<in>
     {t @ [keychain_cmd ''Claude Code'' account],
      t @ [keychain_cmd ''Claude Code'' account, keychain_cmd ''Claude Code-credentials'' account],
      t @ [keychain_cmd ''Claude Code'' account, keychain_cmd ''Claude Code-credentials'' account,
           keychain_cmd ''Claude Safe Storage'' None]}"
  unfolding get_claude_credentials_def
  by (simp add: get_keychain_password_eq service_simps Let_def
           split: option.splits if_splits sum.splits prod.splits)

lemma get_anthropic_api_key_trace:
  "\<exists>qs. snd (get_anthropic_api_key environ loads run t) = t @ qs \<and>
        (\<forall>cmd \<in> set qs. \<exists>svc. cmd = keychain_cmd svc None)"
proof (cases "case environ ''ANTHROPIC_API_KEY'' of Some k \<Rightarrow> if k \<noteq> [] then Some k else None | None \<Rightarrow> None")
  case (Some k)
  then have "snd (get_anthropic_api_key environ loads run t) = t @ []"
    by (simp add: get_anthropic_api_key_def)
  then show ?thesis by (intro exI[of _ "[]"]) simp
next
  case None
  then have "snd (get_anthropic_api_key environ loads run t) =
             snd (get_claude_credentials loads run None t)"
    by (simp add: get_anthropic_api_key_def split: prod.splits sum.splits)
  with get_claude_credentials_trace[of loads run None t]
  consider "snd (get_anthropic_api_key environ loads run t) = t @ [keychain_cmd ''Claude Code'' None]"
    | "snd (get_anthropic_api_key environ loads run t) =
        t @ [keychain_cmd ''Claude Code'' None, keychain_cmd ''Claude Code-credentials'' None]"
    | "snd (get_anthropic_api_key environ loads run t) =
        t @ [keychain_cmd ''Claude Code'' None, keychain_cmd ''Claude Code-credentials'' None,
           keychain_cmd ''Claude Safe Storage'' None]"
    by auto
  then show ?thesis
  proof cases
    case 1 then show ?thesis by (intro exI[of _ "[keychain_cmd ''Claude Code'' None]"]) auto
  next
    case 2 then show ?thesis
      by (intro exI[of _ "[keychain_cmd ''Claude Code'' None, keychain_cmd ''Claude Code-credentials'' None]"]) auto
  next
    case 3 then show ?thesis
      by (intro exI[of _ "[keychain_cmd ''Claude Code'' None, keychain_cmd ''Claude Code-credentials'' None,
           keychain_cmd ''Claude Safe Storage'' None]"]) auto
  qed
qed


lemma example_first_store_key:
  "get_anthropic_api_key Map.empty example_loads
       (example_keychain [(''Claude Code'', ''sk-ant-abc'')]) [] =
     (Inr (PStr ''sk-ant-abc''),
      [[''security'', ''find-generic-password'', ''-s'', ''Claude Code'', ''-w'']])"
  by (simp add: get_anthropic_api_key_def get_claude_credentials_def service_simps
        ClaudeCredentials_init_def example_defs)

lemma example_nothing_stored:
  "get_anthropic_api_key Map.empty example_loads (example_keychain []) [] =
     (Inr PNone,
      [[''security'', ''find-generic-password'', ''-s'', ''Claude Code'', ''-w''],
       [''security'', ''find-generic-password'', ''-s'', ''Claude Code-credentials'', ''-w''],
       [''security'', ''find-generic-password'', ''-s'', ''Claude Safe Storage'', ''-w'']])"
  by (simp add: get_anthropic_api_key_def get_claude_credentials_def service_simps
        ClaudeCredentials_init_def example_defs)

subsection \<open>The materialised environment\<close>

text \<open>
  Claim C7. For the same environment, parser, keychain and trace, the mapping that
  \<open>setup_environment\<close> returns is determined by what \<open>get_anthropic_api_key\<close> returns:
  when that is a value other than \<open>None\<close>, the mapping has the single key
  \<open>ANTHROPIC_API_KEY\<close>, bound to that value; when it is \<open>None\<close>, the mapping is empty.
  The store queries are those of \<open>get_anthropic_api_key\<close>, and an exception of
  \<open>get_anthropic_api_key\<close> leaves \<open>setup_environment\<close> unchanged.
\<close>

theorem setup_environment_round_trip:
  "setup_environment environ loads run account t =
     (case get_anthropic_api_key environ loads run t of
        (Inl e, t') \<Rightarrow> (Inl e, t')
      | (Inr k, t') \<Rightarrow>
          (Inr (if k = PNone then Map.empty else [''ANTHROPIC_API_KEY'' \<mapsto> k]), t'))"
proof -
  obtain r t' where r: "get_anthropic_api_key environ loads run t = (r, t')"
    by (cases "get_anthropic_api_key environ loads run t")
  show ?thesis
  proof (cases r)
    case (Inl e)
    with r show ?thesis by (simp add: setup_environment_def)
  next
    case (Inr k)
    with r have "k = PNone \<or> truthy k"
      using get_anthropic_api_key_truthy by blast
    with r Inr show ?thesis by (auto simp: setup_environment_def)
  qed
qed

theorem setup_environment_round_trip_witness:
  "setup_environment Map.empty example_loads
       (example_keychain [(''Claude Code'', ''sk-ant-abc'')]) None [] =
     (Inr [''ANTHROPIC_API_KEY'' \<mapsto> PStr ''sk-ant-abc''],
      [[''security'', ''find-generic-password'', ''-s'', ''Claude Code'', ''-w'']]) \<and>
   setup_environment Map.empty example_loads (example_keychain []) None [] =
     (Inr Map.empty,
      [[''security'', ''find-generic-password'', ''-s'', ''Claude Code'', ''-w''],
       [''security'', ''find-generic-password'', ''-s'', ''Claude Code-credentials'', ''-w''],
       [''security'', ''find-generic-password'', ''-s'', ''Claude Safe Storage'', ''-w'']])"
  using setup_environment_round_trip[of Map.empty example_loads
          "example_keychain [(''Claude Code'', ''sk-ant-abc'')]" None "[]"]
        setup_environment_round_trip[of Map.empty example_loads "example_keychain []" None "[]"]
  by (simp add: example_first_store_key example_nothing_stored)

subsection \<open>The account argument\<close>

text \<open>
  Claim C10. For any two account arguments, and the same environment, parser, keychain
  and trace, \<open>setup_environment\<close> returns the same mapping and leaves the same trace:
  the argument is ignored. Every store query it makes is a query with no account,
  since it goes through \<open>get_anthropic_api_key\<close>, which has no account parameter and
  calls \<open>get_claude_credentials\<close> with none.
\<close>

theorem setup_environment_ignores_account:
  "setup_environment environ loads run a1 t = setup_environment environ loads run a2 t \<and>
   (\<exists>qs. snd (setup_environment environ loads run a1 t) = t @ qs \<and>
         (\<forall>cmd \<in> set qs. \<exists>svc. cmd = keychain_cmd svc None))"
proof
  show "setup_environment environ loads run a1 t = setup_environment environ loads run a2 t"
    by (simp add: setup_environment_def)
  have "snd (setup_environment environ loads run a1 t) =
        snd (get_anthropic_api_key environ loads run t)"
    by (simp add: setup_environment_def split: prod.splits sum.splits)
  then show "\<exists>qs. snd (setup_environment environ loads run a1 t) = t @ qs \<and>
         (\<forall>cmd \<in> set qs. \<exists>svc. cmd = keychain_cmd svc None)"
    using get_anthropic_api_key_trace[of environ loads run t] by simp
qed

theorem setup_environment_ignores_account_witness:
  "setup_environment Map.empty example_loads
       (example_keychain [(''Claude Code'', ''sk-ant-abc'')]) (Some ''alice'') [] =
   setup_environment Map.empty example_loads
       (example_keychain [(''Claude Code'', ''sk-ant-abc'')]) (Some ''bob'') [] \<and>
   setup_environment Map.empty example_loads
       (example_keychain [(''Claude Code'', ''sk-ant-abc'')]) (Some ''bob'') [] =
     (Inr [''ANTHROPIC_API_KEY'' \<mapsto> PStr ''sk-ant-abc''],
      [[''security'', ''find-generic-password'', ''-s'', ''Claude Code'', ''-w'']])"
proof -
  have "setup_environment Map.empty example_loads
       (example_keychain [(''Claude Code'', ''sk-ant-abc'')]) (Some ''bob'') [] =
     (Inr [''ANTHROPIC_API_KEY'' \<mapsto> PStr ''sk-ant-abc''],
      [[''security'', ''find-generic-password'', ''-s'', ''Claude Code'', ''-w'']])"
    by (simp add: setup_environment_def example_first_store_key)
  then show ?thesis
    using setup_environment_ignores_account[of Map.empty example_loads
            "example_keychain [(''Claude Code'', ''sk-ant-abc'')]" "Some ''alice''" "[]"
            "Some ''bob''"]
    by simp
qed

lemma not_first_store_matches:
  "\<not> first_store_matches run account \<Longrightarrow>
     (case store_value run ''Claude Code'' account of
        Some k \<Rightarrow> if k \<noteq> [] \<and> startswith k ''sk-ant-'' then Some k else None
      | None \<Rightarrow> None) = None"
  by (auto simp: first_store_matches_def split: option.splits)

lemma extract_never_decode_error:
  "extract_api_key_from_mcp_credentials loads s \<noteq> Inl JSONDecodeError"
  by (simp add: extract_api_key_from_mcp_credentials_def split: sum.splits)

lemma first_store_result:
  "first_store_matches run account \<Longrightarrow>
     \<exists>k. get_claude_credentials loads run account t =
       (Inr \<lparr>api_key = PStr k, mcp_oauth_tokens = PNone, session_token = PNone\<rparr>,
        t @ [keychain_cmd ''Claude Code'' account])"
  by (auto simp: resolver_defs first_store_matches_def startswith_nonempty split: option.splits)

lemma later_store_result:
  assumes "\<not> first_store_matches run account"
    and "get_claude_credentials loads run account t = (Inr c, t')"
  shows "(api_key c \<noteq> PNone \<and> session_token c = PNone \<and>
          t' = t @ [keychain_cmd ''Claude Code'' account,
                    keychain_cmd ''Claude Code-credentials'' account]) \<or>
         (api_key c = PNone \<and>
          t' = t @ [keychain_cmd ''Claude Code'' account,
                    keychain_cmd ''Claude Code-credentials'' account,
                    keychain_cmd ''Claude Safe Storage'' None])"
  using assms(2) not_first_store_matches[OF assms(1)]
  by (simp add: resolver_defs split: option.splits if_splits sum.splits prod.splits)
     (auto)

lemma payload_deep_length: "length payload_deep = 996"
  by (simp add: payload_deep_def)

lemma payload_deep_neq:
  "length s \<noteq> 996 \<Longrightarrow> s \<noteq> payload_deep"
  using payload_deep_length by blast

lemma example_loads_array: "example_loads payload_array = Inr (PList [])"
  by (simp add: example_loads_def)

lemma example_loads_nested:
  "example_loads payload_nested =
     Inr (PDict [(''mcpOAuth'', PDict [(''svc1'', PDict [(''accessToken'', PStr ''tok'')])]),
                 (''anthropic'', PDict [(''apiKey'', PStr ''sk-ant-xyz123'')])])"
  by (simp add: example_loads_def payload_array_def payload_nested_def)

lemma example_loads_top_level:
  "example_loads payload_top_level =
     Inr (PDict [(''apiKey'', PStr ''sk-ant-top''),
                 (''anthropic'', PDict [(''apiKey'', PStr ''sk-ant-nested'')])])"
  by (simp add: example_loads_def payload_array_def payload_nested_def payload_top_level_def)

lemma example_loads_empty_top:
  "example_loads payload_empty_top =
     Inr (PDict [(''apiKey'', PStr []),
                 (''anthropic'', PDict [(''apiKey'', PStr ''sk-ant-nested'')])])"
  by (simp add: example_loads_def payload_array_def payload_nested_def payload_top_level_def
        payload_empty_top_def)

lemma example_loads_unsized:
  "example_loads payload_unsized = Inr (PDict [(''mcpOAuth'', PInt 5)])"
  by (simp add: example_loads_def payload_array_def payload_nested_def payload_top_level_def
        payload_empty_top_def payload_unsized_def)

lemma example_loads_malformed: "example_loads payload_malformed = Inl JSONDecodeError"
  by (simp add: example_loads_def payload_array_def payload_nested_def payload_top_level_def
        payload_empty_top_def payload_unsized_def payload_malformed_def)

lemma example_loads_deep: "example_loads payload_deep = Inl RecursionError"
proof -
  have "payload_array \<noteq> payload_deep" "payload_nested \<noteq> payload_deep"
    "payload_top_level \<noteq> payload_deep" "payload_empty_top \<noteq> payload_deep"
    "payload_unsized \<noteq> payload_deep" "payload_malformed \<noteq> payload_deep"
    by (rule payload_deep_neq,
        simp add: payload_array_def payload_nested_def payload_top_level_def
          payload_empty_top_def payload_unsized_def payload_malformed_def)+
  then show ?thesis
    by (simp add: example_loads_def)
qed

subsection \<open>Termination at the primary credential\<close>

text \<open>
  Claim C8. In every bundle that \<open>get_claude_credentials\<close> returns, \<open>api_key\<close> and
  \<open>session_token\<close> are never both set; and when \<open>api_key\<close> is set, the store that set
  it is the last one queried: the trace ends with the query to the first store when
  the first store matched, and with the query to the second store otherwise, so the
  third store is queried only when \<open>api_key\<close> is unset.
\<close>

theorem primary_credential_ends_resolution:
  assumes "get_claude_credentials loads run account t = (Inr c, t')"
  shows "(api_key c = PNone \<or> session_token c = PNone) \<and>
         (api_key c \<noteq> PNone \<longrightarrow>
            t' = t @ (if first_store_matches run account
                      then [keychain_cmd ''Claude Code'' account]
                      else [keychain_cmd ''Claude Code'' account,
                            keychain_cmd ''Claude Code-credentials'' account])) \<and>
         (api_key c = PNone \<longrightarrow>
            t' = t @ [keychain_cmd ''Claude Code'' account,
                      keychain_cmd ''Claude Code-credentials'' account,
                      keychain_cmd ''Claude Safe Storage'' None])"
proof (cases "first_store_matches run account")
  case True
  from first_store_result[OF True, of loads t] assms show ?thesis
    using True by auto
next
  case False
  from later_store_result[OF False assms] show ?thesis
    using False by auto
qed


theorem primary_credential_ends_resolution_witness:
  "get_claude_credentials example_loads
       (example_keychain [(''Claude Code-credentials'', payload_nested),
                          (''Claude Safe Storage'', ''c2FmZQ=='')]) None [] =
     (Inr \<lparr>api_key = PStr ''sk-ant-xyz123'',
           mcp_oauth_tokens = PDict [(''svc1'', PDict [(''accessToken'', PStr ''tok'')])],
           session_token = PNone\<rparr>,
      [[''security'', ''find-generic-password'', ''-s'', ''Claude Code'', ''-w''],
       [''security'', ''find-generic-password'', ''-s'', ''Claude Code-credentials'', ''-w'']]) \<and>
   (api_key \<lparr>api_key = PStr ''sk-ant-xyz123'',
           mcp_oauth_tokens = PDict [(''svc1'', PDict [(''accessToken'', PStr ''tok'')])],
           session_token = PNone\<rparr> = PNone \<or>
    session_token \<lparr>api_key = PStr ''sk-ant-xyz123'',
           mcp_oauth_tokens = PDict [(''svc1'', PDict [(''accessToken'', PStr ''tok'')])],
           session_token = PNone\<rparr> = PNone)"
proof -
  let ?run = "example_keychain [(''Claude Code-credentials'', payload_nested),
                          (''Claude Safe Storage'', ''c2FmZQ=='')]"
  let ?c = "\<lparr>api_key = PStr ''sk-ant-xyz123'',
           mcp_oauth_tokens = PDict [(''svc1'', PDict [(''accessToken'', PStr ''tok'')])],
           session_token = PNone\<rparr>"
  have a: "store_value ?run ''Claude Code'' None = None"
    by (simp add: example_defs)
  have b: "store_value ?run ''Claude Code-credentials'' None = Some payload_nested"
    by (simp add: example_defs payload_nested_def)
  have c: "payload_nested \<noteq> []"
    by (simp add: payload_nested_def)
  have d: "extract_api_key_from_mcp_credentials example_loads payload_nested =
             Inr (PStr ''sk-ant-xyz123'')"
    by (simp add: extract_api_key_from_mcp_credentials_def example_loads_nested)
  have f: "get_claude_credentials example_loads ?run None [] =
     (Inr ?c,
      [[''security'', ''find-generic-password'', ''-s'', ''Claude Code'', ''-w''],
       [''security'', ''find-generic-password'', ''-s'', ''Claude Code-credentials'', ''-w'']])"
    using a b c d
    by (simp add: resolver_defs example_loads_nested keychain_cmd_def)
  from primary_credential_ends_resolution[OF f] f show ?thesis
    by blast
qed

subsection \<open>Payloads that parse but are not objects\<close>

text \<open>
  Claim C1 says that no payload makes \<open>get_claude_credentials\<close> or
  \<open>get_anthropic_api_key\<close> raise. The code raises on two kinds of payload in the
  second store. The payload \<open>[]\<close> is valid JSON and parses to a list, on which
  \<open>.get\<close> raises \<open>AttributeError\<close>; the payload \<open>{"mcpOAuth": 5}\<close> parses to an
  object whose \<open>mcpOAuth\<close> field has no \<open>len\<close>, which raises \<open>TypeError\<close>. Neither
  is a \<open>JSONDecodeError\<close>, the only exception the two \<open>try\<close> blocks catch, so both
  leave \<open>get_claude_credentials\<close> and, with the override absent,
  \<open>get_anthropic_api_key\<close>.
\<close>

theorem non_object_payload_raises:
  "get_claude_credentials example_loads
       (example_keychain [(''Claude Code-credentials'', payload_array)]) None [] =
     (Inl AttributeError,
      [[''security'', ''find-generic-password'', ''-s'', ''Claude Code'', ''-w''],
       [''security'', ''find-generic-password'', ''-s'', ''Claude Code-credentials'', ''-w'']]) \<and>
   get_anthropic_api_key Map.empty example_loads
       (example_keychain [(''Claude Code-credentials'', payload_array)]) [] =
     (Inl AttributeError,
      [[''security'', ''find-generic-password'', ''-s'', ''Claude Code'', ''-w''],
       [''security'', ''find-generic-password'', ''-s'', ''Claude Code-credentials'', ''-w'']]) \<and>
   get_claude_credentials example_loads
       (example_keychain [(''Claude Code-credentials'', payload_unsized)]) None [] =
     (Inl TypeError,
      [[''security'', ''find-generic-password'', ''-s'', ''Claude Code'', ''-w''],
       [''security'', ''find-generic-password'', ''-s'', ''Claude Code-credentials'', ''-w'']]) \<and>
   get_anthropic_api_key Map.empty example_loads
       (example_keychain [(''Claude Code-credentials'', payload_unsized)]) [] =
     (Inl TypeError,
      [[''security'', ''find-generic-password'', ''-s'', ''Claude Code'', ''-w''],
       [''security'', ''find-generic-password'', ''-s'', ''Claude Code-credentials'', ''-w'']])"
proof -
  let ?run1 = "example_keychain [(''Claude Code-credentials'', payload_array)]"
  let ?run2 = "example_keychain [(''Claude Code-credentials'', payload_unsized)]"
  have a1: "store_value ?run1 ''Claude Code'' None = None"
    by (simp add: example_defs)
  have b1: "store_value ?run1 ''Claude Code-credentials'' None = Some payload_array"
    by (simp add: example_defs payload_array_def)
  have c1: "payload_array \<noteq> []"
    by (simp add: payload_array_def)
  have r1: "get_claude_credentials example_loads ?run1 None [] =
     (Inl AttributeError,
      [[''security'', ''find-generic-password'', ''-s'', ''Claude Code'', ''-w''],
       [''security'', ''find-generic-password'', ''-s'', ''Claude Code-credentials'', ''-w'']])"
    using a1 b1 c1
    by (simp add: resolver_defs example_loads_array keychain_cmd_def)
  have a2: "store_value ?run2 ''Claude Code'' None = None"
    by (simp add: example_defs)
  have b2: "store_value ?run2 ''Claude Code-credentials'' None = Some payload_unsized"
    by (simp add: example_defs payload_unsized_def)
  have c2: "payload_unsized \<noteq> []"
    by (simp add: payload_unsized_def)
  have x2: "extract_api_key_from_mcp_credentials example_loads payload_unsized = Inl TypeError"
    by (simp add: extract_api_key_from_mcp_credentials_def example_loads_unsized)
  have r2: "get_claude_credentials example_loads ?run2 None [] =
     (Inl TypeError,
      [[''security'', ''find-generic-password'', ''-s'', ''Claude Code'', ''-w''],
       [''security'', ''find-generic-password'', ''-s'', ''Claude Code-credentials'', ''-w'']])"
    using a2 b2 c2 x2
    by (simp add: resolver_defs example_loads_unsized keychain_cmd_def)
  from r1 r2 show ?thesis
    by (simp add: get_anthropic_api_key_def)
qed

lemma strip_payload_deep: "strip (payload_deep @ [CHR 0x0A]) = payload_deep"
proof -
  have ns: "\<not> is_space (CHR ''['')"
    by (simp add: is_space_def)
  have nl: "is_space (CHR 0x0A)"
    by (simp add: is_space_def)
  have mem: "CHR ''['' \<in> set payload_deep"
    by (simp add: payload_deep_def)
  have 1: "dropWhile is_space (payload_deep @ [CHR 0x0A]) = payload_deep @ [CHR 0x0A]"
    using ns by (simp add: payload_deep_def dropWhile_append1 dropWhile_replicate)
  have 2: "dropWhile is_space (rev (payload_deep @ [CHR 0x0A])) = payload_deep"
    using ns nl by (simp add: payload_deep_def dropWhile_replicate)
  show ?thesis
    by (simp only: strip_def 1 2) (simp add: payload_deep_def)
qed

subsection \<open>The order of the extraction rules\<close>

text \<open>
  Claim C3 says that the first extraction rule that yields a non-empty string wins, so
  that a document whose top-level \<open>apiKey\<close> is present but empty and whose
  \<open>anthropic\<close> sub-object has a non-empty \<open>apiKey\<close> gives the nested value as the
  primary credential. The code returns the top-level field as soon as it is present:
  for \<open>{"apiKey": "", "anthropic": {"apiKey": "sk-ant-nested"}}\<close> the extraction
  returns the empty string and never reads the nested field, and
  \<open>get_claude_credentials\<close>, which takes an empty result for none, sets no primary
  credential and goes on to the third store.
\<close>

theorem empty_top_level_field_shadows_nested:
  "extract_api_key_from_mcp_credentials example_loads payload_empty_top = Inr (PStr []) \<and>
   extract_api_key_from_mcp_credentials example_loads payload_empty_top \<noteq>
     Inr (PStr ''sk-ant-nested'') \<and>
   get_claude_credentials example_loads
       (example_keychain [(''Claude Code-credentials'', payload_empty_top)]) None [] =
     (Inr \<lparr>api_key = PNone, mcp_oauth_tokens = PDict [], session_token = PNone\<rparr>,
      [[''security'', ''find-generic-password'', ''-s'', ''Claude Code'', ''-w''],
       [''security'', ''find-generic-password'', ''-s'', ''Claude Code-credentials'', ''-w''],
       [''security'', ''find-generic-password'', ''-s'', ''Claude Safe Storage'', ''-w'']])"
proof -
  let ?run = "example_keychain [(''Claude Code-credentials'', payload_empty_top)]"
  have x: "extract_api_key_from_mcp_credentials example_loads payload_empty_top = Inr (PStr [])"
    by (simp add: extract_api_key_from_mcp_credentials_def example_loads_empty_top)
  have a: "store_value ?run ''Claude Code'' None = None"
    by (simp add: example_defs)
  have b: "store_value ?run ''Claude Code-credentials'' None = Some payload_empty_top"
    by (simp add: example_defs payload_empty_top_def)
  have c: "payload_empty_top \<noteq> []"
    by (simp add: payload_empty_top_def)
  have d: "store_value ?run ''Claude Safe Storage'' None = None"
    by (simp add: example_defs)
  have "get_claude_credentials example_loads ?run None [] =
     (Inr \<lparr>api_key = PNone, mcp_oauth_tokens = PDict [], session_token = PNone\<rparr>,
      [[''security'', ''find-generic-password'', ''-s'', ''Claude Code'', ''-w''],
       [''security'', ''find-generic-password'', ''-s'', ''Claude Code-credentials'', ''-w''],
       [''security'', ''find-generic-password'', ''-s'', ''Claude Safe Storage'', ''-w'']])"
    using a b c d x
    by (simp add: resolver_defs example_loads_empty_top keychain_cmd_def)
  with x show ?thesis by simp
qed

subsection \<open>A credential in the second store\<close>

text \<open>
  Claim C5. Let the first store yield no matching credential, and let the second store
  return a non-empty payload that parses to a JSON object holding a credential, a
  non-empty string, either in its top-level \<open>apiKey\<close> field or, with no top-level
  \<open>apiKey\<close> field, in the \<open>apiKey\<close> field of its \<open>anthropic\<close> sub-object. Then
  \<open>get_claude_credentials\<close> returns a bundle with that string as \<open>api_key\<close> and with
  the object's \<open>mcpOAuth\<close> field (the empty \<open>dict\<close> when the field is absent) as
  \<open>mcp_oauth_tokens\<close>, and only the first two stores have been queried. (An object
  whose top-level field is present but empty is the subject of claim C3.)
\<close>

theorem second_store_credential:
  assumes "\<not> first_store_matches run account"
    and "store_value run ''Claude Code-credentials'' account = Some s"
    and "s \<noteq> []"
    and "loads s = Inr (PDict d)"
    and "k \<noteq> []"
    and "map_of d ''apiKey'' = Some (PStr k) \<or>
         map_of d ''apiKey'' = None \<and> map_of d ''anthropic'' = Some (PDict a) \<and>
         map_of a ''apiKey'' = Some (PStr k)"
  shows "get_claude_credentials loads run account t =
           (Inr \<lparr>api_key = PStr k,
                 mcp_oauth_tokens =
                   (case map_of d ''mcpOAuth'' of Some m \<Rightarrow> m | None \<Rightarrow> PDict []),
                 session_token = PNone\<rparr>,
            t @ [keychain_cmd ''Claude Code'' account,
                 keychain_cmd ''Claude Code-credentials'' account])"
proof -
  have "extract_api_key_from_mcp_credentials loads s = Inr (PStr k)"
    using assms(4,6) by (auto simp: extract_api_key_from_mcp_credentials_def)
  then show ?thesis
    using assms(2-5) not_first_store_matches[OF assms(1)]
    by (simp add: resolver_defs)
qed

theorem second_store_credential_witness:
  "get_claude_credentials example_loads
       (example_keychain [(''Claude Code-credentials'', payload_nested)]) None [] =
     (Inr \<lparr>api_key = PStr ''sk-ant-xyz123'',
           mcp_oauth_tokens = PDict [(''svc1'', PDict [(''accessToken'', PStr ''tok'')])],
           session_token = PNone\<rparr>,
      [[''security'', ''find-generic-password'', ''-s'', ''Claude Code'', ''-w''],
       [''security'', ''find-generic-password'', ''-s'', ''Claude Code-credentials'', ''-w'']]) \<and>
   get_claude_credentials example_loads
       (example_keychain [(''Claude Code'', ''not-a-key''),
                          (''Claude Code-credentials'', payload_top_level)]) (Some ''alice'') [] =
     (Inr \<lparr>api_key = PStr ''sk-ant-top'', mcp_oauth_tokens = PDict [],
           session_token = PNone\<rparr>,
      [[''security'', ''find-generic-password'', ''-s'', ''Claude Code'', ''-w'', ''-a'', ''alice''],
       [''security'', ''find-generic-password'', ''-s'', ''Claude Code-credentials'', ''-w'',
        ''-a'', ''alice'']])"
proof -
  let ?run1 = "example_keychain [(''Claude Code-credentials'', payload_nested)]"
  let ?d1 = "[(''mcpOAuth'', PDict [(''svc1'', PDict [(''accessToken'', PStr ''tok'')])]),
              (''anthropic'', PDict [(''apiKey'', PStr ''sk-ant-xyz123'')])]"
  let ?run2 = "example_keychain [(''Claude Code'', ''not-a-key''),
                          (''Claude Code-credentials'', payload_top_level)]"
  let ?d2 = "[(''apiKey'', PStr ''sk-ant-top''),
              (''anthropic'', PDict [(''apiKey'', PStr ''sk-ant-nested'')])]"
  have a1: "\<not> first_store_matches ?run1 None"
    by (simp add: first_store_matches_def example_defs)
  have b1: "store_value ?run1 ''Claude Code-credentials'' None = Some payload_nested"
    by (simp add: example_defs payload_nested_def)
  have c1: "payload_nested \<noteq> []"
    by (simp add: payload_nested_def)
  have e1: "''sk-ant-xyz123'' \<noteq> []"
    by simp
  have f1: "map_of ?d1 ''apiKey'' = Some (PStr ''sk-ant-xyz123'') \<or>
            map_of ?d1 ''apiKey'' = None \<and>
            map_of ?d1 ''anthropic'' = Some (PDict [(''apiKey'', PStr ''sk-ant-xyz123'')]) \<and>
            map_of [(''apiKey'', PStr ''sk-ant-xyz123'')] ''apiKey'' = Some (PStr ''sk-ant-xyz123'')"
    by simp
  have a2: "\<not> first_store_matches ?run2 (Some ''alice'')"
    by (simp add: first_store_matches_def example_defs)
  have b2: "store_value ?run2 ''Claude Code-credentials'' (Some ''alice'') = Some payload_top_level"
    by (simp add: example_defs payload_top_level_def)
  have c2: "payload_top_level \<noteq> []"
    by (simp add: payload_top_level_def)
  have e2: "''sk-ant-top'' \<noteq> []"
    by simp
  have f2: "map_of ?d2 ''apiKey'' = Some (PStr ''sk-ant-top'') \<or>
            map_of ?d2 ''apiKey'' = None \<and>
            map_of ?d2 ''anthropic'' = Some (PDict [(''apiKey'', PStr ''sk-ant-nested'')]) \<and>
            map_of [(''apiKey'', PStr ''sk-ant-nested'')] ''apiKey'' = Some (PStr ''sk-ant-top'')"
    by simp
  have 1: "get_claude_credentials example_loads ?run1 None [] =
     (Inr \<lparr>api_key = PStr ''sk-ant-xyz123'',
           mcp_oauth_tokens = PDict [(''svc1'', PDict [(''accessToken'', PStr ''tok'')])],
           session_token = PNone\<rparr>,
      [[''security'', ''find-generic-password'', ''-s'', ''Claude Code'', ''-w''],
       [''security'', ''find-generic-password'', ''-s'', ''Claude Code-credentials'', ''-w'']])"
    using second_store_credential[where run = ?run1 and account = None and s = payload_nested
        and loads = example_loads and d = ?d1 and k = "''sk-ant-xyz123''"
        and a = "[(''apiKey'', PStr ''sk-ant-xyz123'')]" and t = "[]",
        OF a1 b1 c1 example_loads_nested e1 f1]
    by (simp add: keychain_cmd_def)
  have 2: "get_claude_credentials example_loads ?run2 (Some ''alice'') [] =
     (Inr \<lparr>api_key = PStr ''sk-ant-top'', mcp_oauth_tokens = PDict [],
           session_token = PNone\<rparr>,
      [[''security'', ''find-generic-password'', ''-s'', ''Claude Code'', ''-w'', ''-a'', ''alice''],
       [''security'', ''find-generic-password'', ''-s'', ''Claude Code-credentials'', ''-w'',
        ''-a'', ''alice'']])"
    using second_store_credential[where run = ?run2 and account = "Some ''alice''"
        and s = payload_top_level
        and loads = example_loads and d = ?d2 and k = "''sk-ant-top''"
        and a = "[(''apiKey'', PStr ''sk-ant-nested'')]" and t = "[]",
        OF a2 b2 c2 example_loads_top_level e2 f2]
    by (simp add: keychain_cmd_def)
  from 1 2 show ?thesis by simp
qed

subsection \<open>A second store that does not parse\<close>

lemma decode_error_second_store:
  assumes "\<not> first_store_matches run account"
    and "store_value run ''Claude Code-credentials'' account = Some s"
    and "loads s = Inl JSONDecodeError"
  shows "get_claude_credentials loads run account t =
           (Inr \<lparr>api_key = PNone, mcp_oauth_tokens = PNone,
                 session_token =
                   (case store_value run ''Claude Safe Storage'' None of
                      Some tok \<Rightarrow> if tok \<noteq> [] then PStr tok else PNone
                    | None \<Rightarrow> PNone)\<rparr>,
            t @ [keychain_cmd ''Claude Code'' account,
                 keychain_cmd ''Claude Code-credentials'' account,
                 keychain_cmd ''Claude Safe Storage'' None])"
  using assms(2,3) not_first_store_matches[OF assms(1)]
  by (simp add: resolver_defs split: option.splits)

lemma decode_error_second_store_example:
  "get_claude_credentials example_loads
       (example_keychain [(''Claude Code-credentials'', payload_malformed),
                          (''Claude Safe Storage'', ''c2FmZQ=='')]) None [] =
     (Inr \<lparr>api_key = PNone, mcp_oauth_tokens = PNone, session_token = PStr ''c2FmZQ==''\<rparr>,
      [[''security'', ''find-generic-password'', ''-s'', ''Claude Code'', ''-w''],
       [''security'', ''find-generic-password'', ''-s'', ''Claude Code-credentials'', ''-w''],
       [''security'', ''find-generic-password'', ''-s'', ''Claude Safe Storage'', ''-w'']])"
proof -
  let ?run = "example_keychain [(''Claude Code-credentials'', payload_malformed),
                          (''Claude Safe Storage'', ''c2FmZQ=='')]"
  have a: "\<not> first_store_matches ?run None"
    by (simp add: first_store_matches_def example_defs)
  have b: "store_value ?run ''Claude Code-credentials'' None = Some payload_malformed"
    by (simp add: example_defs payload_malformed_def)
  have d: "store_value ?run ''Claude Safe Storage'' None = Some ''c2FmZQ==''"
    by (simp add: example_defs)
  show ?thesis
    using a b example_loads_malformed
      decode_error_second_store[where run = ?run and account = None and s = payload_malformed
        and loads = example_loads and t = "[]"]
    by (simp add: d keychain_cmd_def)
qed

text \<open>
  Claim C6 says that a second-store payload that fails to parse as JSON makes
  \<open>get_claude_credentials\<close> raise nothing and go on to the third store, with
  \<open>mcp_oauth_tokens\<close> left unset. The code does so when the parser raises
  \<open>JSONDecodeError\<close> (\<open>decode_error_second_store\<close>), the only exception it catches.
  On the payload of 996 opening brackets, which is not JSON, the parser raises
  \<open>RecursionError\<close>: the exception leaves \<open>get_claude_credentials\<close> and, with the
  override absent, \<open>get_anthropic_api_key\<close>, and the third store, which holds a value
  here, is not queried.
\<close>

theorem unparsable_payload_raises:
  "get_claude_credentials example_loads
       (example_keychain [(''Claude Code-credentials'', payload_deep),
                          (''Claude Safe Storage'', ''c2FmZQ=='')]) None [] =
     (Inl RecursionError,
      [[''security'', ''find-generic-password'', ''-s'', ''Claude Code'', ''-w''],
       [''security'', ''find-generic-password'', ''-s'', ''Claude Code-credentials'', ''-w'']]) \<and>
   get_anthropic_api_key Map.empty example_loads
       (example_keychain [(''Claude Code-credentials'', payload_deep),
                          (''Claude Safe Storage'', ''c2FmZQ=='')]) [] =
     (Inl RecursionError,
      [[''security'', ''find-generic-password'', ''-s'', ''Claude Code'', ''-w''],
       [''security'', ''find-generic-password'', ''-s'', ''Claude Code-credentials'', ''-w'']])"
proof -
  let ?run = "example_keychain [(''Claude Code-credentials'', payload_deep),
                          (''Claude Safe Storage'', ''c2FmZQ=='')]"
  have a: "store_value ?run ''Claude Code'' None = None"
    by (simp add: example_defs)
  have b: "store_value ?run ''Claude Code-credentials'' None = Some payload_deep"
    by (simp add: store_value_def get_keychain_password_def keychain_cmd_def
          strip_payload_deep)
  have c: "payload_deep \<noteq> []"
    by (simp add: payload_deep_def)
  have r: "get_claude_credentials example_loads ?run None [] =
     (Inl RecursionError,
      [[''security'', ''find-generic-password'', ''-s'', ''Claude Code'', ''-w''],
       [''security'', ''find-generic-password'', ''-s'', ''Claude Code-credentials'', ''-w'']])"
    using a b c
    by (simp add: resolver_defs example_loads_deep keychain_cmd_def)
  then show ?thesis
    by (simp add: get_anthropic_api_key_def)
qed

end
